theory Spec2Isabelle
  imports Main "HOL-Library.Word"
begin

section \<open>Values of the host language\<close>

text \<open>
  The service module \<^verbatim>\<open>geminiService\<close> exports two asynchronous functions,
  \<^verbatim>\<open>fileToBase64\<close> and \<^verbatim>\<open>editImageWithPrompt\<close>. Both return a promise. A promise
  settles with a value, settles with a thrown value, or stays pending. A string-typed
  value that may be \<^verbatim>\<open>undefined\<close> at run time is a \<open>string option\<close>.

  Every error of the module is an instance of the one class \<^verbatim>\<open>Error\<close>, told apart by its
  message only. A thrown value that is no \<^verbatim>\<open>Error\<close> is kept with the text that
  \<^verbatim>\<open>String(...)\<close> gives for it.
\<close>

type_synonym byte = "8 word"

datatype thrown = JsError (message: string) | NonError (rendering: string)

datatype 'a promise = Resolved 'a | Rejected thrown | Pending

text \<open>\<^verbatim>\<open>error instanceof Error ? error.message : String(error)\<close>\<close>

fun error_message :: "thrown \<Rightarrow> string" where
  "error_message (JsError m) = m"
| "error_message (NonError s) = s"

text \<open>Truthiness of a value of type \<^verbatim>\<open>string | undefined\<close>: the empty string is falsy.\<close>

fun truthy :: "string option \<Rightarrow> bool" where
  "truthy None = False"
| "truthy (Some s) = (s \<noteq> [])"

text \<open>\<^verbatim>\<open>xs[i]\<close> on an array: \<^verbatim>\<open>undefined\<close> out of range.\<close>

definition at :: "'a list \<Rightarrow> nat \<Rightarrow> 'a option" where
  "at xs i = (if i < length xs then Some (xs ! i) else None)"

text \<open>
  \<^verbatim>\<open>s.split(sep)\<close> for a one-character separator: the pieces between the separators,
  in order; a string without the separator gives one piece, the empty string too.
\<close>

fun js_split :: "char \<Rightarrow> string \<Rightarrow> string list" where
  "js_split sep [] = [[]]"
| "js_split sep (c # cs) =
     (if c = sep then [] # js_split sep cs
      else (case js_split sep cs of
              [] \<Rightarrow> [[c]]
            | w # ws \<Rightarrow> (c # w) # ws))"

section \<open>The Encoder: \<^verbatim>\<open>fileToBase64\<close>\<close>

subsection \<open>Base64, as the file reader writes it\<close>

text \<open>
  \<^verbatim>\<open>FileReader.readAsDataURL\<close> belongs to the browser, not to the repository. It is
  modelled after the File API and RFC 2397, in the form the source's own comment
  names: \<^verbatim>\<open>data:mime/type;base64,\<close> followed by the base64 text (RFC 4648, section 4,
  with padding) of the file's bytes.
\<close>

definition b64chars :: string where
  "b64chars = ''ABCDEFGHIJKLMNOPQRSTUVWXYZabcdefghijklmnopqrstuvwxyz0123456789+/''"

definition b64char :: "nat \<Rightarrow> char" where
  "b64char i = b64chars ! i"

fun base64 :: "byte list \<Rightarrow> string" where
  "base64 (a # b # c # rest) =
     (let n = (unat a * 256 + unat b) * 256 + unat c
      in b64char (n div 262144) # b64char (n div 4096 mod 64) #
         b64char (n div 64 mod 64) # b64char (n mod 64) # base64 rest)"
| "base64 [a, b] =
     (let n = (unat a * 256 + unat b) * 4
      in [b64char (n div 4096), b64char (n div 64 mod 64), b64char (n mod 64), CHR ''=''])"
| "base64 [a] =
     (let n = unat a * 16
      in [b64char (n div 64), b64char (n mod 64), CHR ''='', CHR ''=''])"
| "base64 [] = []"

text \<open>
  The decoder the specification's round trip speaks of: the inverse reading of the same
  alphabet, four characters at a time, padding only in the last group.
\<close>

fun index_of :: "'a \<Rightarrow> 'a list \<Rightarrow> nat option" where
  "index_of x [] = None"
| "index_of x (y # ys) = (if x = y then Some 0 else map_option Suc (index_of x ys))"

definition b64val :: "char \<Rightarrow> nat option" where
  "b64val c = index_of c b64chars"

fun base64_decode :: "string \<Rightarrow> byte list option" where
  "base64_decode (c0 # c1 # c2 # c3 # rest) =
     (case (b64val c0, b64val c1) of
        (Some v0, Some v1) \<Rightarrow>
          if rest = [] \<and> c2 = CHR ''='' \<and> c3 = CHR ''=''
          then Some [of_nat ((v0 * 64 + v1) div 16)]
          else (case b64val c2 of
                  None \<Rightarrow> None
                | Some v2 \<Rightarrow>
                    if rest = [] \<and> c3 = CHR ''=''
                    then (let n = (v0 * 64 + v1) * 64 + v2
                          in Some [of_nat (n div 1024), of_nat (n div 4 mod 256)])
                    else (case b64val c3 of
                            None \<Rightarrow> None
                          | Some v3 \<Rightarrow>
                              (let n = ((v0 * 64 + v1) * 64 + v2) * 64 + v3
                               in map_option
                                    (\<lambda>bs. of_nat (n div 65536) # of_nat (n div 256 mod 256) #
                                          of_nat (n mod 256) # bs)
                                    (base64_decode rest))))
      | _ \<Rightarrow> None)"
| "base64_decode [] = Some []"
| "base64_decode _ = None"

subsection \<open>The file and its reader\<close>

text \<open>
  A \<^verbatim>\<open>File\<close> as the encoder sees it: its \<^verbatim>\<open>type\<close> attribute (any string of printable
  ASCII; the constructor of \<^verbatim>\<open>File\<close> checks no more than that) and what reading it
  gives: the bytes, or nothing when the handle cannot be read.
\<close>

record File =
  file_type :: string
  file_bytes :: "byte list option"

text \<open>
  The media type in the header is the file's type; for a file of empty type the
  engines write \<^verbatim>\<open>application/octet-stream\<close>.
\<close>

definition media_type :: "File \<Rightarrow> string" where
  "media_type f = (if file_type f = [] then ''application/octet-stream'' else file_type f)"

definition readAsDataURL :: "File \<Rightarrow> string option" where
  "readAsDataURL f =
     map_option (\<lambda>bs. ''data:'' @ media_type f @ '';base64,'' @ base64 bs) (file_bytes f)"

text \<open>
  \<^verbatim>\<open>
  export const fileToBase64 = (file: File): Promise<string> => {
    return new Promise((resolve, reject) => {
      const reader = new FileReader();
      reader.readAsDataURL(file);
      reader.onload = () => resolve((reader.result as string).split(',')[1]);
      reader.onerror = error => reject(error);
    });
  };
  \<close>
  The \<^verbatim>\<open>error\<close> handler receives the reader's progress event and rejects with it.
\<close>

definition ReadError :: thrown where
  "ReadError = NonError ''[object ProgressEvent]''"

definition fileToBase64 :: "File \<Rightarrow> string option promise" where
  "fileToBase64 f =
     (case readAsDataURL f of
        Some result \<Rightarrow> Resolved (at (js_split CHR '','' result) 1)
      | None \<Rightarrow> Rejected ReadError)"

section \<open>The Edit Requestor: \<^verbatim>\<open>editImageWithPrompt\<close>\<close>

subsection \<open>Request and response\<close>

text \<open>
  The shapes of the service's SDK, with its field names. Every field of a response is
  optional, and so is an entry of the candidate list.
\<close>

record blob =
  data :: "string option"
  mimeType :: "string option"

record part =
  inlineData :: "blob option"
  "text" :: "string option"

record content =
  parts :: "part list option"

record candidate =
  content :: "content option"

record response =
  candidates :: "candidate option list option"

datatype Modality = MODALITY_UNSPECIFIED | TEXT | IMAGE | AUDIO

record config =
  responseModalities :: "Modality list"

record params =
  model :: string
  contents :: content
  config :: config

text \<open>
  One call of \<^verbatim>\<open>ai.models.generateContent\<close>, by the client built with
  \<^verbatim>\<open>new GoogleGenAI({ apiKey: process.env.API_KEY })\<close>.
\<close>

record call =
  apiKey :: "string option"
  request :: params

text \<open>
  The remote service answers a call with a response, fails it with a thrown value, or
  never answers. What the function does to the outside is kept in the world: the calls
  sent to the network, in order, and the lines written by \<^verbatim>\<open>console.error\<close>.
\<close>

datatype answer = Responds response | Fails thrown | Hangs

type_synonym service = "call \<Rightarrow> answer"

text \<open>\<^verbatim>\<open>process.env\<close>, as far as the module reads it.\<close>

record env =
  API_KEY :: "string option"

text \<open>A mocked service gives the same answer to every call.\<close>

definition mocked :: "answer \<Rightarrow> service" where
  "mocked a c = a"

record world =
  network :: "call list"
  console :: "(string \<times> thrown) list"

subsection \<open>The errors, by their messages\<close>

definition MissingCredentialError :: thrown where
  "MissingCredentialError = JsError ''API_KEY environment variable is not set.''"

definition NoImageInResponseError :: thrown where
  "NoImageInResponseError =
     JsError ''No image data found in the API response. The model may have refused the request.''"

definition GenerationFailedError :: "thrown \<Rightarrow> thrown" where
  "GenerationFailedError cause = JsError (''Failed to generate image: '' @ error_message cause)"

subsection \<open>The function\<close>

text \<open>
  \<^verbatim>\<open>
  generateContent({
    model: 'gemini-2.5-flash-image',
    contents: { parts: [ { inlineData: { data: base64ImageData, mimeType: mimeType } },
                         { text: prompt } ] },
    config: { responseModalities: [Modality.IMAGE] } })
  \<close>
\<close>

definition generateContent_params :: "string \<Rightarrow> string \<Rightarrow> string \<Rightarrow> params" where
  "generateContent_params base64ImageData mimeTypeArg prompt =
     \<lparr>model = ''gemini-2.5-flash-image'',
      contents = \<lparr>parts = Some
        [\<lparr>inlineData = Some \<lparr>data = Some base64ImageData, mimeType = Some mimeTypeArg\<rparr>,
          text = None\<rparr>,
         \<lparr>inlineData = None, text = Some prompt\<rparr>]\<rparr>,
      config = \<lparr>responseModalities = [IMAGE]\<rparr>\<rparr>"

text \<open>\<^verbatim>\<open>response.candidates?.[0]?.content?.parts || []\<close>\<close>

definition first_candidate_parts :: "response \<Rightarrow> part list" where
  "first_candidate_parts r =
     (case candidates r of
        None \<Rightarrow> []
      | Some cs \<Rightarrow>
          (case at cs 0 of
             None \<Rightarrow> []
           | Some None \<Rightarrow> []
           | Some (Some c) \<Rightarrow>
               (case content c of
                  None \<Rightarrow> []
                | Some ct \<Rightarrow>
                    (case parts ct of
                       None \<Rightarrow> []
                     | Some ps \<Rightarrow> ps))))"

text \<open>
  \<^verbatim>\<open>
  for (const part of ...) {
    if (part.inlineData) {
      return part.inlineData.data;
    }
  }
  \<close>
  \<open>Some v\<close> when the loop returns \<open>v\<close> (the \<^verbatim>\<open>data\<close> field, itself optional), \<open>None\<close>
  when it runs to its end.
\<close>

fun scan_parts :: "part list \<Rightarrow> string option option" where
  "scan_parts [] = None"
| "scan_parts (p # ps) =
     (case inlineData p of
        Some b \<Rightarrow> Some (data b)
      | None \<Rightarrow> scan_parts ps)"

text \<open>The body of the \<^verbatim>\<open>try\<close> block completes by a return, by a throw, or not at all.\<close>

datatype completion = Returned "string option" | Threw thrown | Suspended

definition try_block :: "service \<Rightarrow> call \<Rightarrow> world \<Rightarrow> completion \<times> world" where
  "try_block svc c w =
     (let w' = w\<lparr>network := network w @ [c]\<rparr>
      in case svc c of
           Hangs \<Rightarrow> (Suspended, w')
         | Fails e \<Rightarrow> (Threw e, w')
         | Responds r \<Rightarrow>
             (case scan_parts (first_candidate_parts r) of
                Some d \<Rightarrow> (Returned d, w')
              | None \<Rightarrow> (Threw NoImageInResponseError, w')))"

text \<open>
  \<^verbatim>\<open>
  catch (error) {
    console.error("Error calling Gemini API:", error);
    throw new Error(`Failed to generate image: ${...}`);
  }
  \<close>
\<close>

definition catch_block :: "thrown \<Rightarrow> world \<Rightarrow> string option promise \<times> world" where
  "catch_block e w =
     (Rejected (GenerationFailedError e),
      w\<lparr>console := console w @ [(''Error calling Gemini API:'', e)]\<rparr>)"

definition editImageWithPrompt ::
  "env \<Rightarrow> service \<Rightarrow> string \<Rightarrow> string \<Rightarrow> string \<Rightarrow> world \<Rightarrow> string option promise \<times> world"
where
  "editImageWithPrompt env svc base64ImageData mimeTypeArg prompt w =
     (if \<not> truthy (API_KEY env) then (Rejected MissingCredentialError, w)
      else (case try_block svc
                   \<lparr>apiKey = API_KEY env,
                    request = generateContent_params base64ImageData mimeTypeArg prompt\<rparr> w of
              (Returned d, w') \<Rightarrow> (Resolved d, w')
            | (Threw e, w') \<Rightarrow> catch_block e w'
            | (Suspended, w') \<Rightarrow> (Pending, w')))"

text \<open>
  A response without a list of parts to scan: the candidate list, its first entry, that
  entry's \<^verbatim>\<open>content\<close> or the content's \<^verbatim>\<open>parts\<close> is missing.
\<close>

definition parts_absent :: "response \<Rightarrow> bool" where
  "parts_absent r =
     (case candidates r of
        None \<Rightarrow> True
      | Some [] \<Rightarrow> True
      | Some (None # _) \<Rightarrow> True
      | Some (Some c # _) \<Rightarrow>
          (case content c of
             None \<Rightarrow> True
           | Some ct \<Rightarrow> parts ct = None))"

section \<open>Facts about the Encoder\<close>

lemma b64chars_length: "length b64chars = 64"
  by (simp add: b64chars_def)

lemma b64chars_distinct: "distinct b64chars"
  by (simp add: b64chars_def)

lemma index_of_nth:
  "distinct xs \<Longrightarrow> i < length xs \<Longrightarrow> index_of (xs ! i) xs = Some i"
proof (induction xs arbitrary: i)
  case Nil
  then show ?case by simp
next
  case (Cons x xs)
  show ?case
  proof (cases i)
    case 0
    then show ?thesis by simp
  next
    case (Suc j)
    with Cons.prems have "j < length xs" "distinct xs" "xs ! j \<noteq> x" by auto
    with Cons.IH [of j] Suc show ?thesis by simp
  qed
qed

lemma b64val_b64char: "i < 64 \<Longrightarrow> b64val (b64char i) = Some i"
  by (simp add: b64val_def b64char_def index_of_nth b64chars_distinct b64chars_length)

lemma b64char_in: "i < 64 \<Longrightarrow> b64char i \<in> set b64chars"
  by (simp add: b64char_def b64chars_length)

lemma b64char_not_pad: "i < 64 \<Longrightarrow> b64char i \<noteq> CHR ''=''"
proof
  assume "i < 64" "b64char i = CHR ''=''"
  then have "CHR ''='' \<in> set b64chars" using b64char_in [of i] by simp
  then show False by (simp add: b64chars_def)
qed

lemma b64char_not_comma: "i < 64 \<Longrightarrow> b64char i \<noteq> CHR '',''"
proof
  assume "i < 64" "b64char i = CHR '',''"
  then have "CHR '','' \<in> set b64chars" using b64char_in [of i] by simp
  then show False by (simp add: b64chars_def)
qed

lemma unat_byte: "unat (a :: byte) < 256"
  using unsigned_less [of a, where ?'a = nat] by simp

lemma of_nat_unat_byte: "of_nat (unat (a :: byte)) = a"
  by simp

text \<open>Arithmetic of the groups: three bytes are four sextets, and back.\<close>

lemma div_4096: "(n::nat) div 4096 = n div 64 div 64"
  using div_mult2_eq [of n 64 64] by simp

lemma div_262144: "(n::nat) div 262144 = n div 64 div 64 div 64"
  using div_mult2_eq [of n 4096 64] by (simp add: div_4096)

lemma sextets_recombine:
  "((n div 262144 * 64 + n div 4096 mod 64) * 64 + n div 64 mod 64) * 64 + n mod 64 = (n::nat)"
  by (simp only: div_4096 div_262144 div_mult_mod_eq)

lemma sextets3_recombine:
  "(n div 4096 * 64 + n div 64 mod 64) * 64 + n mod 64 = (n::nat)"
  by (simp only: div_4096 div_mult_mod_eq)

lemma sextets2_recombine:
  "n div 64 * 64 + n mod 64 = (n::nat)"
  by (simp only: div_mult_mod_eq)

lemma bytes3:
  fixes a b c :: nat
  assumes "a < 256" "b < 256" "c < 256"
  shows "((a * 256 + b) * 256 + c) div 65536 = a"
    and "((a * 256 + b) * 256 + c) div 256 mod 256 = b"
    and "((a * 256 + b) * 256 + c) mod 256 = c"
    and "((a * 256 + b) * 256 + c) div 262144 < 64"
proof -
  let ?n = "(a * 256 + b) * 256 + c"
  have d1: "?n div 256 = a * 256 + b" using assms(3) by simp
  have d2: "(a * 256 + b) div 256 = a" using assms(2) by simp
  have "?n div 65536 = ?n div 256 div 256"
    using div_mult2_eq [of ?n 256 256] by simp
  with d1 d2 show "?n div 65536 = a" by simp
  from d1 assms(2) show "?n div 256 mod 256 = b" by simp
  from assms(3) show "?n mod 256 = c" by (simp only: mod_mult_self3 mod_less)
  have "?n < 64 * 262144" using assms by simp
  then show "?n div 262144 < 64" by (rule less_mult_imp_div_less)
qed

lemma bytes2:
  fixes a b :: nat
  assumes "a < 256" "b < 256"
  shows "((a * 256 + b) * 4) div 1024 = a"
    and "((a * 256 + b) * 4) div 4 mod 256 = b"
    and "((a * 256 + b) * 4) div 4096 < 64"
proof -
  let ?n = "(a * 256 + b) * 4"
  have d1: "?n div 4 = a * 256 + b" by simp
  have d2: "(a * 256 + b) div 256 = a" using assms(2) by simp
  have "?n div 1024 = ?n div 4 div 256"
    using div_mult2_eq [of ?n 4 256] by simp
  with d1 d2 show "?n div 1024 = a" by simp
  from d1 assms(2) show "?n div 4 mod 256 = b" by simp
  have "?n < 64 * 4096" using assms by simp
  then show "?n div 4096 < 64" by (rule less_mult_imp_div_less)
qed

lemma bytes1:
  fixes a :: nat
  assumes "a < 256"
  shows "(a * 16) div 16 = a" and "(a * 16) div 64 < 64"
proof -
  show "(a * 16) div 16 = a" by simp
  have "a * 16 < 64 * 64" using assms by simp
  then show "(a * 16) div 64 < 64" by (rule less_mult_imp_div_less)
qed


text \<open>The decoder on one group of the encoder's output.\<close>

lemma decode_group:
  assumes "s0 < 64" "s1 < 64" "s2 < 64" "s3 < 64"
  shows "base64_decode (b64char s0 # b64char s1 # b64char s2 # b64char s3 # rest) =
           map_option
             (\<lambda>bs. of_nat ((((s0 * 64 + s1) * 64 + s2) * 64 + s3) div 65536) #
                   of_nat ((((s0 * 64 + s1) * 64 + s2) * 64 + s3) div 256 mod 256) #
                   of_nat ((((s0 * 64 + s1) * 64 + s2) * 64 + s3) mod 256) # bs)
             (base64_decode rest)"
  using assms by (simp add: b64val_b64char b64char_not_pad Let_def)

lemma decode_pad1:
  assumes "s0 < 64" "s1 < 64" "s2 < 64"
  shows "base64_decode [b64char s0, b64char s1, b64char s2, CHR ''=''] =
           Some [of_nat (((s0 * 64 + s1) * 64 + s2) div 1024),
                 of_nat (((s0 * 64 + s1) * 64 + s2) div 4 mod 256)]"
  using assms by (simp add: b64val_b64char b64char_not_pad Let_def)

lemma decode_pad2:
  assumes "s0 < 64" "s1 < 64"
  shows "base64_decode [b64char s0, b64char s1, CHR ''='', CHR ''=''] =
           Some [of_nat ((s0 * 64 + s1) div 16)]"
  using assms by (simp add: b64val_b64char)

text \<open>Decoding the base64 text of a byte sequence gives the byte sequence back.\<close>

lemma base64_roundtrip: "base64_decode (base64 bs) = Some bs"
proof (induction bs rule: base64.induct)
  case (1 a b c rest)
  let ?n = "(unat a * 256 + unat b) * 256 + unat c"
  have bnd: "?n div 262144 < 64" by (rule bytes3(4)) (rule unat_byte)+
  have "base64_decode (base64 (a # b # c # rest)) =
          base64_decode (b64char (?n div 262144) # b64char (?n div 4096 mod 64) #
                         b64char (?n div 64 mod 64) # b64char (?n mod 64) # base64 rest)"
    by (simp add: Let_def)
  also have "\<dots> = map_option
             (\<lambda>bs. of_nat (?n div 65536) # of_nat (?n div 256 mod 256) #
                   of_nat (?n mod 256) # bs)
             (base64_decode (base64 rest))"
    using decode_group [of "?n div 262144" "?n div 4096 mod 64" "?n div 64 mod 64" "?n mod 64"
                           "base64 rest"] bnd
    by (simp only: sextets_recombine)
  also have "\<dots> = Some (of_nat (?n div 65536) # of_nat (?n div 256 mod 256) #
                          of_nat (?n mod 256) # rest)"
    by (simp add: "1.IH")
  also have "\<dots> = Some (a # b # c # rest)"
    using bytes3(1-3) [OF unat_byte unat_byte unat_byte, of a b c]
    by (simp only: of_nat_unat_byte)
  finally show ?case .
next
  case (2 a b)
  let ?n = "(unat a * 256 + unat b) * 4"
  have bnd: "?n div 4096 < 64" by (rule bytes2(3)) (rule unat_byte)+
  have "base64_decode (base64 [a, b]) =
          base64_decode [b64char (?n div 4096), b64char (?n div 64 mod 64),
                         b64char (?n mod 64), CHR ''='']"
    by (simp add: Let_def)
  also have "\<dots> = Some [of_nat (?n div 1024), of_nat (?n div 4 mod 256)]"
    using decode_pad1 [of "?n div 4096" "?n div 64 mod 64" "?n mod 64"] bnd
    by (simp only: sextets3_recombine)
  also have "\<dots> = Some [a, b]"
    using bytes2(1,2) [OF unat_byte unat_byte, of a b]
    by (simp only: of_nat_unat_byte)
  finally show ?case .
next
  case (3 a)
  let ?n = "unat a * 16"
  have bnd: "?n div 64 < 64" by (rule bytes1(2)) (rule unat_byte)
  have "base64_decode (base64 [a]) =
          base64_decode [b64char (?n div 64), b64char (?n mod 64), CHR ''='', CHR ''='']"
    by (simp add: Let_def)
  also have "\<dots> = Some [of_nat (?n div 16)]"
    using decode_pad2 [of "?n div 64" "?n mod 64"] bnd
    by (simp only: sextets2_recombine)
  also have "\<dots> = Some [a]"
    using bytes1(1) [OF unat_byte, of a]
    by (simp only: of_nat_unat_byte)
  finally show ?case .
next
  case 4
  show ?case by simp
qed

text \<open>
  The base64 text holds no comma, so the last comma of the data URL is the one that ends
  the header.
\<close>

lemma base64_no_comma: "CHR '','' \<notin> set (base64 bs)"
proof (induction bs rule: base64.induct)
  case (1 a b c rest)
  have "((unat a * 256 + unat b) * 256 + unat c) div 262144 < 64"
    by (rule bytes3(4)) (rule unat_byte)+
  with 1 show ?case by (simp add: Let_def b64char_not_comma [THEN not_sym])
next
  case (2 a b)
  have "((unat a * 256 + unat b) * 4) div 4096 < 64"
    by (rule bytes2(3)) (rule unat_byte)+
  then show ?case by (simp add: Let_def b64char_not_comma [THEN not_sym])
next
  case (3 a)
  have "(unat a * 16) div 64 < 64"
    by (rule bytes1(2)) (rule unat_byte)
  then show ?case by (simp add: Let_def b64char_not_comma [THEN not_sym])
next
  case 4
  show ?case by simp
qed

lemma js_split_nonempty: "js_split sep s \<noteq> []"
  by (induction s) (simp_all split: list.splits)

lemma js_split_no_sep: "sep \<notin> set s \<Longrightarrow> js_split sep s = [s]"
  by (induction s) auto

lemma js_split_append:
  "sep \<notin> set a \<Longrightarrow> js_split sep (a @ sep # b) = a # js_split sep b"
  by (induction a) auto

lemma media_type_comma:
  "CHR '','' \<in> set (media_type f) \<longleftrightarrow> CHR '','' \<in> set (file_type f)"
  by (simp add: media_type_def)

lemma readAsDataURL_split:
  assumes "CHR '','' \<notin> set (file_type f)"
  shows "js_split CHR '','' (''data:'' @ media_type f @ '';base64,'' @ base64 bs) =
           [''data:'' @ media_type f @ '';base64'', base64 bs]"
proof -
  have "''data:'' @ media_type f @ '';base64,'' @ base64 bs =
          (''data:'' @ media_type f @ '';base64'') @ CHR '','' # base64 bs"
    by simp
  moreover have "CHR '','' \<notin> set (''data:'' @ media_type f @ '';base64'')"
    using assms by (simp add: media_type_comma)
  ultimately show ?thesis
    using js_split_append [of "CHR '',''" "''data:'' @ media_type f @ '';base64''" "base64 bs"]
          js_split_no_sep [OF base64_no_comma, of bs]
    by simp
qed

text \<open>
  For a readable file whose type holds no comma, the second piece of the split is the
  whole base64 text: the encoder resolves with it, and it decodes to the file's bytes.
\<close>

lemma fileToBase64_plain_type:
  assumes "CHR '','' \<notin> set (file_type f)" and "file_bytes f = Some bs"
  shows "fileToBase64 f = Resolved (Some (base64 bs))"
  using assms readAsDataURL_split [OF assms(1), of bs]
  by (simp add: fileToBase64_def readAsDataURL_def at_def)

lemma fileToBase64_roundtrip:
  assumes "CHR '','' \<notin> set (file_type f)" and "file_bytes f = Some bs"
  shows "\<exists>s. fileToBase64 f = Resolved (Some s) \<and> base64_decode s = Some bs"
  using fileToBase64_plain_type [OF assms] base64_roundtrip by simp

lemma fileToBase64_unreadable:
  "file_bytes f = None \<Longrightarrow> fileToBase64 f = Rejected ReadError"
  by (simp add: fileToBase64_def readAsDataURL_def)

text \<open>
  For a file whose type holds one comma, the second piece of the split is the rest of
  the header, whatever the bytes are.
\<close>

lemma fileToBase64_comma_type:
  assumes "file_type f = a @ CHR '','' # b" and "CHR '','' \<notin> set a" and "CHR '','' \<notin> set b"
    and "file_bytes f = Some bs"
  shows "fileToBase64 f = Resolved (Some (b @ '';base64''))"
proof -
  have mt: "media_type f = a @ CHR '','' # b" using assms(1) by (simp add: media_type_def)
  have "''data:'' @ media_type f @ '';base64,'' @ base64 bs =
          (''data:'' @ a) @ CHR '','' # ((b @ '';base64'') @ CHR '','' # base64 bs)"
    by (simp add: mt)
  moreover have "CHR '','' \<notin> set (''data:'' @ a)" using assms(2) by simp
  moreover have "CHR '','' \<notin> set (b @ '';base64'')" using assms(3) by simp
  ultimately have "js_split CHR '','' (''data:'' @ media_type f @ '';base64,'' @ base64 bs) =
      [''data:'' @ a, b @ '';base64'', base64 bs]"
    using js_split_append [of "CHR '',''" "''data:'' @ a"
            "(b @ '';base64'') @ CHR '','' # base64 bs"]
          js_split_append [of "CHR '',''" "b @ '';base64''" "base64 bs"]
          js_split_no_sep [OF base64_no_comma, of bs]
    by simp
  with assms(4) show ?thesis
    by (simp add: fileToBase64_def readAsDataURL_def at_def)
qed


lemma fileToBase64_empty_plain_type:
  assumes "CHR '','' \<notin> set (file_type f)" and "file_bytes f = Some []"
  shows "fileToBase64 f = Resolved (Some [])"
  using fileToBase64_plain_type [OF assms] by simp

text \<open>
  Claim C1 has the encoder return, for every file, a base64 text that decodes to the
  file's bytes. The code takes the piece after the first comma of the data URL, and the
  comment beside it says that this removes the prefix \<^verbatim>\<open>data:mime/type;base64,\<close>. For a
  file whose type holds a comma it does not: here the three bytes \<^verbatim>\<open>ABC\<close> in a file of
  type \<^verbatim>\<open>image/png;note=a,b\<close> give the text \<^verbatim>\<open>b;base64\<close>, a piece of the header, which
  is no base64 text and decodes to nothing. (For a type without comma the round trip
  holds: \<open>fileToBase64_roundtrip\<close>.)
\<close>

theorem fileToBase64_comma_type_loses_bytes:
  "fileToBase64 \<lparr>file_type = ''image/png;note=a,b'', file_bytes = Some [0x41, 0x42, 0x43]\<rparr> =
     Resolved (Some ''b;base64'') \<and>
   base64_decode ''b;base64'' \<noteq> Some [0x41, 0x42, 0x43] \<and>
   base64_decode (base64 [0x41, 0x42, 0x43]) = Some [0x41, 0x42, 0x43]"
proof -
  have "fileToBase64
          \<lparr>file_type = ''image/png;note=a,b'', file_bytes = Some [0x41, 0x42, 0x43]\<rparr> =
        Resolved (Some ''b;base64'')"
    using fileToBase64_comma_type
            [of "\<lparr>file_type = ''image/png;note=a,b'', file_bytes = Some [0x41, 0x42, 0x43]\<rparr>"
                "''image/png;note=a''" "''b''" "[0x41, 0x42, 0x43]"]
    by simp
  moreover have "base64_decode ''b;base64'' = None"
    by (simp add: b64val_def b64chars_def)
  then have "base64_decode ''b;base64'' \<noteq> Some [0x41, 0x42, 0x43]"
    by (simp only: option.distinct not_False_eq_True)
  moreover have "base64_decode (base64 [0x41, 0x42, 0x43]) = Some [0x41, 0x42, 0x43]"
    by (rule base64_roundtrip)
  ultimately show ?thesis by blast
qed

text \<open>
  Claim C6 has the encoder return the empty string for an empty file. By the same
  defect as in C1, an empty file whose type holds a comma gives a piece of the header
  instead. (For a type without comma the result is the empty string:
  \<open>fileToBase64_empty_plain_type\<close>.)
\<close>

theorem fileToBase64_empty_file_comma_type:
  "fileToBase64 \<lparr>file_type = ''image/png;note=a,b'', file_bytes = Some []\<rparr> =
     Resolved (Some ''b;base64'') \<and>
   fileToBase64 \<lparr>file_type = ''image/png;note=a,b'', file_bytes = Some []\<rparr> \<noteq>
     Resolved (Some [])"
proof -
  have "fileToBase64 \<lparr>file_type = ''image/png;note=a,b'', file_bytes = Some []\<rparr> =
        Resolved (Some ''b;base64'')"
    using fileToBase64_comma_type
            [of "\<lparr>file_type = ''image/png;note=a,b'', file_bytes = Some []\<rparr>"
                "''image/png;note=a''" "''b''" "[]"]
    by simp
  then show ?thesis by simp
qed

section \<open>Facts about the Edit Requestor\<close>




lemma edit_with_credential:
  "truthy (API_KEY env) \<Longrightarrow>
   editImageWithPrompt env svc img mt pr w =
     (case try_block svc \<lparr>apiKey = API_KEY env, request = generateContent_params img mt pr\<rparr> w of
        (Returned d, w') \<Rightarrow> (Resolved d, w')
      | (Threw e, w') \<Rightarrow> catch_block e w'
      | (Suspended, w') \<Rightarrow> (Pending, w'))"
  by (simp add: editImageWithPrompt_def)

lemma edit_network:
  "network (snd (editImageWithPrompt env svc img mt pr w)) =
     network w @
       (if truthy (API_KEY env)
        then [\<lparr>apiKey = API_KEY env, request = generateContent_params img mt pr\<rparr>] else [])"
  by (simp add: editImageWithPrompt_def try_block_def catch_block_def Let_def
           split: answer.splits option.splits)

lemma parts_absent_no_parts: "parts_absent r \<Longrightarrow> first_candidate_parts r = []"
proof (cases "candidates r")
  case None
  then show ?thesis by (simp add: first_candidate_parts_def)
next
  case (Some cs)
  assume a: "parts_absent r"
  show ?thesis
  proof (cases cs)
    case Nil
    with Some show ?thesis by (simp add: first_candidate_parts_def at_def)
  next
    case (Cons c cs')
    with Some a show ?thesis
      by (cases c)
         (simp_all add: first_candidate_parts_def parts_absent_def at_def split: option.splits)
  qed
qed

text \<open>
  What happens when the scan finds nothing: the \<^verbatim>\<open>try\<close> block throws the no-image error,
  its own \<^verbatim>\<open>catch\<close> logs that error and throws the wrapper.
\<close>

lemma no_image_outcome:
  assumes "truthy (API_KEY env)"
    and "svc \<lparr>apiKey = API_KEY env, request = generateContent_params img mt pr\<rparr> = Responds r"
    and "scan_parts (first_candidate_parts r) = None"
  shows "fst (try_block svc
                \<lparr>apiKey = API_KEY env, request = generateContent_params img mt pr\<rparr> w) =
           Threw NoImageInResponseError \<and>
         editImageWithPrompt env svc img mt pr w =
           (Rejected (GenerationFailedError NoImageInResponseError),
            w\<lparr>network := network w @
                 [\<lparr>apiKey = API_KEY env, request = generateContent_params img mt pr\<rparr>],
              console := console w @ [(''Error calling Gemini API:'', NoImageInResponseError)]\<rparr>)"
  using assms by (simp add: edit_with_credential try_block_def catch_block_def Let_def)

subsection \<open>The credential check\<close>

text \<open>
  Claim C2. Called with no credential in the process environment, \<^verbatim>\<open>editImageWithPrompt\<close>
  fails at once with the missing-credential error, whatever the service and the
  arguments are, and leaves the world as it was: no call has gone to the network (and
  nothing was logged).
\<close>

theorem missing_credential_rejects_without_call:
  assumes "API_KEY env = None"
  shows "editImageWithPrompt env svc img mt pr w = (Rejected MissingCredentialError, w)"
  using assms by (simp add: editImageWithPrompt_def)

theorem missing_credential_rejects_without_call_witness:
  "API_KEY \<lparr>API_KEY = None\<rparr> = None \<and>
   editImageWithPrompt \<lparr>API_KEY = None\<rparr> (mocked Hangs) ''QUJD'' ''image/png'' ''add a hat''
       \<lparr>network = [], console = []\<rparr> =
     (Rejected MissingCredentialError, \<lparr>network = [], console = []\<rparr>)"
  using missing_credential_rejects_without_call
          [of "\<lparr>API_KEY = None\<rparr>" "mocked Hangs" "''QUJD''" "''image/png''" "''add a hat''"
              "\<lparr>network = [], console = []\<rparr>"]
  by simp

text \<open>
  Claim C10. A credential set to the empty string is falsy, so the call fails with the
  same missing-credential error and the same untouched world as when the variable is
  unset: the two invocations give equal results.
\<close>

theorem empty_credential_as_absent:
  assumes "API_KEY env = Some []"
  shows "editImageWithPrompt env svc img mt pr w = (Rejected MissingCredentialError, w) \<and>
         editImageWithPrompt env svc img mt pr w =
           editImageWithPrompt (env\<lparr>API_KEY := None\<rparr>) svc img mt pr w"
  using assms by (simp add: editImageWithPrompt_def)

theorem empty_credential_as_absent_witness:
  "API_KEY \<lparr>API_KEY = Some []\<rparr> = Some [] \<and>
   editImageWithPrompt \<lparr>API_KEY = Some []\<rparr> (mocked Hangs) ''QUJD'' ''image/png'' ''add a hat''
       \<lparr>network = [], console = []\<rparr> =
     (Rejected MissingCredentialError, \<lparr>network = [], console = []\<rparr>)"
  using empty_credential_as_absent
          [of "\<lparr>API_KEY = Some []\<rparr>" "mocked Hangs" "''QUJD''" "''image/png''" "''add a hat''"
              "\<lparr>network = [], console = []\<rparr>"]
  by simp

subsection \<open>The request\<close>

text \<open>
  Claim C7. Every call that an invocation adds to the network carries a request with
  exactly two parts in this order: the inline image data with its media type, then the
  instruction text; and the request asks for the one response modality \<open>IMAGE\<close>.
\<close>

theorem request_has_image_then_text:
  "\<forall>c \<in> set (drop (length (network w))
                  (network (snd (editImageWithPrompt env svc img mt pr w)))).
     parts (contents (request c)) =
       Some [\<lparr>inlineData = Some \<lparr>data = Some img, mimeType = Some mt\<rparr>, text = None\<rparr>,
             \<lparr>inlineData = None, text = Some pr\<rparr>] \<and>
     responseModalities (config (request c)) = [IMAGE]"
  by (simp add: edit_network generateContent_params_def)

theorem request_has_image_then_text_witness:
  "\<lparr>apiKey = Some ''key'', request = generateContent_params ''QUJD'' ''image/png'' ''add a hat''\<rparr>
     \<in> set (drop (length (network \<lparr>network = [], console = []\<rparr>))
              (network (snd (editImageWithPrompt \<lparr>API_KEY = Some ''key''\<rparr> (mocked Hangs)
                               ''QUJD'' ''image/png'' ''add a hat''
                               \<lparr>network = [], console = []\<rparr>)))) \<and>
   parts (contents (generateContent_params ''QUJD'' ''image/png'' ''add a hat'')) =
     Some [\<lparr>inlineData = Some \<lparr>data = Some ''QUJD'', mimeType = Some ''image/png''\<rparr>,
            text = None\<rparr>,
           \<lparr>inlineData = None, text = Some ''add a hat''\<rparr>] \<and>
   responseModalities (config (generateContent_params ''QUJD'' ''image/png'' ''add a hat'')) =
     [IMAGE]"
proof -
  let ?c = "\<lparr>apiKey = Some ''key'',
             request = generateContent_params ''QUJD'' ''image/png'' ''add a hat''\<rparr>"
  let ?sent = "set (drop (length (network \<lparr>network = [], console = []\<rparr>))
              (network (snd (editImageWithPrompt \<lparr>API_KEY = Some ''key''\<rparr> (mocked Hangs)
                               ''QUJD'' ''image/png'' ''add a hat''
                               \<lparr>network = [], console = []\<rparr>))))"
  have mem: "?c \<in> ?sent"
    by (simp add: editImageWithPrompt_def try_block_def mocked_def)
  from request_has_image_then_text
         [of "\<lparr>network = [], console = []\<rparr>" "\<lparr>API_KEY = Some ''key''\<rparr>" "mocked Hangs"
             "''QUJD''" "''image/png''" "''add a hat''"] mem
  have "parts (contents (request ?c)) =
          Some [\<lparr>inlineData = Some \<lparr>data = Some ''QUJD'', mimeType = Some ''image/png''\<rparr>,
                 text = None\<rparr>,
                \<lparr>inlineData = None, text = Some ''add a hat''\<rparr>] \<and>
        responseModalities (config (request ?c)) = [IMAGE]"
    by blast
  with mem show ?thesis by simp
qed

text \<open>
  Claim C8. An invocation that passes the credential check sends exactly one call: the
  network holds the calls it held before and then this one, whether the service
  responds, fails or never answers.
\<close>

theorem exactly_one_call:
  assumes "truthy (API_KEY env)"
  shows "network (snd (editImageWithPrompt env svc img mt pr w)) =
           network w @
             [\<lparr>apiKey = API_KEY env, request = generateContent_params img mt pr\<rparr>] \<and>
         length (network (snd (editImageWithPrompt env svc img mt pr w))) =
           Suc (length (network w))"
  using assms by (simp add: edit_network)

theorem exactly_one_call_witness:
  "truthy (API_KEY \<lparr>API_KEY = Some ''key''\<rparr>) \<and>
   length (network (snd (editImageWithPrompt \<lparr>API_KEY = Some ''key''\<rparr>
                           (mocked (Fails (JsError ''500 Internal Server Error'')))
                           ''QUJD'' ''image/png'' ''add a hat''
                           \<lparr>network = [], console = []\<rparr>))) = 1"
proof -
  have h: "truthy (API_KEY \<lparr>API_KEY = Some ''key''\<rparr>)" by simp
  from exactly_one_call
         [of "\<lparr>API_KEY = Some ''key''\<rparr>" "mocked (Fails (JsError ''500 Internal Server Error''))"
             "''QUJD''" "''image/png''" "''add a hat''" "\<lparr>network = [], console = []\<rparr>", OF h]
  show ?thesis using h by simp
qed

subsection \<open>Reading the response\<close>






text \<open>
  Claim C9. The traversal is total over a response that lacks the candidate list, its
  first entry, the entry's content or the content's list of parts: each of these gives
  the empty list of parts, no field access fails, and the call ends on the branch of
  the no-image error: the \<^verbatim>\<open>try\<close> block throws that error, and the caller gets it inside
  the generation-failed error, as for any response without inline data.
\<close>

theorem absent_fields_take_no_image_branch:
  assumes "truthy (API_KEY env)"
    and "svc \<lparr>apiKey = API_KEY env, request = generateContent_params img mt pr\<rparr> = Responds r"
    and "parts_absent r"
  shows "first_candidate_parts r = [] \<and>
         fst (try_block svc
                \<lparr>apiKey = API_KEY env, request = generateContent_params img mt pr\<rparr> w) =
           Threw NoImageInResponseError \<and>
         editImageWithPrompt env svc img mt pr w =
           (Rejected (GenerationFailedError NoImageInResponseError),
            w\<lparr>network := network w @
                 [\<lparr>apiKey = API_KEY env, request = generateContent_params img mt pr\<rparr>],
              console := console w @ [(''Error calling Gemini API:'', NoImageInResponseError)]\<rparr>)"
proof -
  from assms(3) have e: "first_candidate_parts r = []"
    by (rule parts_absent_no_parts)
  then have "scan_parts (first_candidate_parts r) = None" by simp
  with assms(1,2) e show ?thesis
    using no_image_outcome [of env svc img mt pr r w] by simp
qed

theorem absent_fields_take_no_image_branch_witness:
  "truthy (API_KEY \<lparr>API_KEY = Some ''key''\<rparr>) \<and>
   mocked (Responds \<lparr>candidates = Some [Some \<lparr>content = Some \<lparr>parts = None\<rparr>\<rparr>]\<rparr>)
     \<lparr>apiKey = API_KEY \<lparr>API_KEY = Some ''key''\<rparr>,
      request = generateContent_params ''QUJD'' ''image/png'' ''add a hat''\<rparr> =
     Responds \<lparr>candidates = Some [Some \<lparr>content = Some \<lparr>parts = None\<rparr>\<rparr>]\<rparr> \<and>
   parts_absent \<lparr>candidates = Some [Some \<lparr>content = Some \<lparr>parts = None\<rparr>\<rparr>]\<rparr> \<and>
   parts_absent \<lparr>candidates = Some [Some \<lparr>content = None\<rparr>]\<rparr> \<and>
   parts_absent \<lparr>candidates = Some [None]\<rparr> \<and>
   parts_absent \<lparr>candidates = None\<rparr> \<and>
   fst (editImageWithPrompt \<lparr>API_KEY = Some ''key''\<rparr>
          (mocked (Responds \<lparr>candidates = Some [Some \<lparr>content = Some \<lparr>parts = None\<rparr>\<rparr>]\<rparr>))
          ''QUJD'' ''image/png'' ''add a hat'' \<lparr>network = [], console = []\<rparr>) =
     Rejected (GenerationFailedError NoImageInResponseError)"
proof -
  let ?r = "\<lparr>candidates = Some [Some \<lparr>content = Some \<lparr>parts = None\<rparr>\<rparr>]\<rparr>"
  let ?env = "\<lparr>API_KEY = Some ''key''\<rparr>"
  have h1: "truthy (API_KEY ?env)" by simp
  have h2: "mocked (Responds ?r)
              \<lparr>apiKey = API_KEY ?env,
               request = generateContent_params ''QUJD'' ''image/png'' ''add a hat''\<rparr> =
            Responds ?r"
    by (simp add: mocked_def)
  have h3: "parts_absent ?r" by (simp add: parts_absent_def)
  have h4: "parts_absent \<lparr>candidates = Some [Some \<lparr>content = None\<rparr>]\<rparr>"
    by (simp add: parts_absent_def)
  have h5: "parts_absent \<lparr>candidates = Some [None]\<rparr>" by (simp add: parts_absent_def)
  have h6: "parts_absent \<lparr>candidates = None\<rparr>" by (simp add: parts_absent_def)
  from absent_fields_take_no_image_branch
         [of ?env "mocked (Responds ?r)" "''QUJD''" "''image/png''" "''add a hat''" ?r
             "\<lparr>network = [], console = []\<rparr>", OF h1 h2 h3]
  have "fst (editImageWithPrompt ?env (mocked (Responds ?r)) ''QUJD'' ''image/png''
               ''add a hat'' \<lparr>network = [], console = []\<rparr>) =
        Rejected (GenerationFailedError NoImageInResponseError)"
    by simp
  with h1 h2 h3 h4 h5 h6 show ?thesis by blast
qed

subsection \<open>Failures of the remote call\<close>



end
